theory Spec2Isabelle
  imports Main
begin

section \<open>JavaScript string primitives used by the components\<close>

text \<open>
  A JavaScript string is modelled as a \<^typ>\<open>string\<close>: one \<^typ>\<open>char\<close> per
  code unit, for the code units below 256 (ASCII and Latin-1). \<open>String.prototype.trim\<close>
  removes white space and line terminators from both ends; the ones that exist in this
  range are TAB, LF, VT, FF, CR, SPACE and NO-BREAK SPACE.
\<close>

definition isWhiteSpace :: "char \<Rightarrow> bool" where
  "isWhiteSpace c =
     (c = CHR 0x09 \<or> c = CHR 0x0A \<or> c = CHR 0x0B \<or> c = CHR 0x0C \<or> c = CHR 0x0D
      \<or> c = CHR '' '' \<or> c = CHR 0xA0)"

definition trim :: "string \<Rightarrow> string" where
  "trim s = rev (dropWhile isWhiteSpace (rev (dropWhile isWhiteSpace s)))"

text \<open>
  \<open>s.replace(/^https?:\/\/github\.com\//, "")\<close>: the pattern is anchored at the start and
  has no \<open>g\<close> flag, so at most one occurrence, at position 0, is removed. After
  \<open>http\<close> the next character is either \<open>s\<close> or \<open>:\<close>, so the two alternatives of
  \<open>s?\<close> exclude each other.
\<close>

definition startsWith :: "string \<Rightarrow> string \<Rightarrow> bool" where
  "startsWith s p = (take (length p) s = p)"

definition replaceGithubPrefix :: "string \<Rightarrow> string" where
  "replaceGithubPrefix s =
     (if startsWith s ''https://github.com/'' then drop (length ''https://github.com/'') s
      else if startsWith s ''http://github.com/'' then drop (length ''http://github.com/'') s
      else s)"

text \<open>
  \<open>s.replace(/\.git$/, "")\<close>: without the \<open>m\<close> flag \<open>$\<close> matches at the end of the
  input only, so a single trailing \<open>.git\<close> is removed.
\<close>

definition endsWith :: "string \<Rightarrow> string \<Rightarrow> bool" where
  "endsWith s p = (length p \<le> length s \<and> drop (length s - length p) s = p)"

definition replaceGitSuffix :: "string \<Rightarrow> string" where
  "replaceGitSuffix s =
     (if endsWith s ''.git'' then take (length s - length ''.git'') s else s)"

text \<open>
  \<open>s.split(sep)\<close> for a one-character separator: the pieces between the occurrences of
  the separator, empty pieces kept; the empty string gives one empty piece.
\<close>

fun split :: "char \<Rightarrow> string \<Rightarrow> string list" where
  "split sep [] = [[]]"
| "split sep (c # cs) =
     (if c = sep then [] # split sep cs
      else (case split sep cs of
              p # ps \<Rightarrow> (c # p) # ps
            | [] \<Rightarrow> [[c]]))"

text \<open>\<open>x || d\<close> on a string and on an optional string: the empty string and
  \<open>undefined\<close> are falsy.\<close>

definition orElse :: "string \<Rightarrow> string \<Rightarrow> string" where
  "orElse x d = (if x = [] then d else x)"

definition orElseOpt :: "string option \<Rightarrow> string \<Rightarrow> string" where
  "orElseOpt x d = (case x of None \<Rightarrow> d | Some v \<Rightarrow> orElse v d)"

section \<open>Data model\<close>

text \<open>
  \<open>SkillRepo\<close>, \<open>DiscoverableSkill\<close> and \<open>RepoType\<close> are imported from
  \<open>@/lib/api/skills\<close>; the fields are the ones the components read and write. A field
  that may be missing is an \<open>option\<close>.
\<close>

datatype RepoType = Github | Zip

record SkillRepo =
  owner :: string
  name :: string
  branch :: "string option"
  enabled :: bool
  repoType :: RepoType
  zipUrl :: "string option"

record DiscoverableSkill =
  repoOwner :: string
  repoName :: string
  repoBranch :: "string option"

section \<open>RepoManagerPanel: the pure helpers\<close>

definition getSkillCount :: "DiscoverableSkill list \<Rightarrow> SkillRepo \<Rightarrow> nat" where
  "getSkillCount skills repo =
     (if repoType repo = Zip
      then length (filter (\<lambda>skill. repoName skill = name repo) skills)
      else length (filter (\<lambda>skill.
             repoOwner skill = owner repo \<and>
             repoName skill = name repo \<and>
             orElseOpt (repoBranch skill) ''main'' = orElseOpt (branch repo) ''main'') skills))"

text \<open>The first three assignments of \<open>parseRepoUrl\<close> to its variable \<open>cleaned\<close>.\<close>

definition cleaned :: "string \<Rightarrow> string" where
  "cleaned url = replaceGitSuffix (replaceGithubPrefix (trim url))"

text \<open>The result object \<open>{owner, name}\<close> is the pair \<open>(owner, name)\<close>; \<open>null\<close> is
  \<open>None\<close>.\<close>

definition parseRepoUrl :: "string \<Rightarrow> (string \<times> string) option" where
  "parseRepoUrl url =
     (let parts = split CHR ''/'' (cleaned url)
      in if length parts = 2 \<and> parts ! 0 \<noteq> [] \<and> parts ! 1 \<noteq> []
         then Some (parts ! 0, parts ! 1)
         else None)"

text \<open>
  Text shown to the user. The translation function \<open>t\<close> comes from
  \<open>react-i18next\<close>; its applications stay symbolic: \<open>Translated k\<close> is the result of
  \<open>t(k)\<close> or \<open>t(k, {defaultValue: ...})\<close> (every key is used with one fixed option
  object), \<open>Plain s\<close> is the string \<open>s\<close> itself. A template literal is the list of its
  parts.
\<close>

datatype message = Plain string | Translated string

definition getRepoDisplayName :: "SkillRepo \<Rightarrow> string" where
  "getRepoDisplayName repo =
     (if repoType repo = Zip then name repo
      else owner repo @ ''/'' @ name repo)"

definition getRepoSubtitle :: "SkillRepo \<Rightarrow> message list" where
  "getRepoSubtitle repo =
     (if repoType repo = Zip then [Plain (orElseOpt (zipUrl repo) '''')]
      else [Translated ''skills.repo.branch'', Plain '': '',
            Plain (orElseOpt (branch repo) ''main'')])"

section \<open>RepoManagerPanel: the submit handlers\<close>

text \<open>
  The component's \<open>useState\<close> variables \<open>repoUrl\<close>, \<open>branch\<close>, \<open>zipName\<close>,
  \<open>zipUrl\<close>, \<open>error\<close> and \<open>repoType\<close>, prefixed with \<open>st_\<close> to keep them apart
  from the fields of \<open>SkillRepo\<close>.
\<close>

record form =
  st_repoUrl :: string
  st_branch :: string
  st_zipName :: string
  st_zipUrl :: string
  st_error :: message
  st_repoType :: RepoType

text \<open>
  The promise returned by the \<open>onAdd\<close> property either fulfils or rejects with a value.
  The \<open>catch\<close> callback looks at the value through \<open>e instanceof Error\<close> and
  \<open>e.message\<close> only.
\<close>

datatype rejection = ErrorInstance string | NonError

datatype settlement = Fulfilled | Rejected rejection

text \<open>The callback passed to \<open>then\<close> in \<open>handleAddGithub\<close>.\<close>

definition githubThen :: "form \<Rightarrow> form" where
  "githubThen s = s\<lparr>st_repoUrl := '''', st_branch := ''''\<rparr>"

text \<open>The callback passed to \<open>then\<close> in \<open>handleAddZip\<close>.\<close>

definition zipThen :: "form \<Rightarrow> form" where
  "zipThen s = s\<lparr>st_zipName := '''', st_zipUrl := ''''\<rparr>"

text \<open>The callback passed to \<open>catch\<close> in both handlers.\<close>

definition addCatch :: "rejection \<Rightarrow> form \<Rightarrow> form" where
  "addCatch e s =
     s\<lparr>st_error := (case e of
                       ErrorInstance msg \<Rightarrow> Plain msg
                     | NonError \<Rightarrow> Translated ''skills.repo.addFailed'')\<rparr>"

text \<open>
  A handler returns the form after the promise has settled, with no other event in
  between, and the list of the calls it made to \<open>onAdd\<close>, in order.
\<close>

definition handleAddGithub ::
  "(SkillRepo \<Rightarrow> settlement) \<Rightarrow> form \<Rightarrow> form \<times> SkillRepo list" where
  "handleAddGithub onAdd s =
     (let s1 = s\<lparr>st_error := Plain ''''\<rparr>
      in case parseRepoUrl (st_repoUrl s) of
           None \<Rightarrow> (s1\<lparr>st_error := Translated ''skills.repo.invalidUrl''\<rparr>, [])
         | Some parsed \<Rightarrow>
             (let repo = \<lparr>owner = fst parsed,
                          name = snd parsed,
                          branch = Some (orElse (st_branch s) ''main''),
                          enabled = True,
                          repoType = Github,
                          zipUrl = None\<rparr>
              in (case onAdd repo of
                    Fulfilled \<Rightarrow> githubThen s1
                  | Rejected e \<Rightarrow> addCatch e s1,
                  [repo])))"

text \<open>
  \<open>new URL(x)\<close> is the platform's URL parser; \<open>URL_parses x\<close> says that it returns
  without throwing.
\<close>

definition handleAddZip ::
  "(string \<Rightarrow> bool) \<Rightarrow> (SkillRepo \<Rightarrow> settlement) \<Rightarrow> form \<Rightarrow> form \<times> SkillRepo list" where
  "handleAddZip URL_parses onAdd s =
     (let s1 = s\<lparr>st_error := Plain ''''\<rparr>
      in if trim (st_zipName s) = []
         then (s1\<lparr>st_error := Translated ''skills.repo.nameRequired''\<rparr>, [])
         else if trim (st_zipUrl s) = []
         then (s1\<lparr>st_error := Translated ''skills.repo.zipUrlRequired''\<rparr>, [])
         else if \<not> URL_parses (trim (st_zipUrl s))
         then (s1\<lparr>st_error := Translated ''skills.repo.invalidZipUrl''\<rparr>, [])
         else
           (let repo = \<lparr>owner = ''zip'',
                        name = trim (st_zipName s),
                        branch = Some '''',
                        enabled = True,
                        repoType = Zip,
                        zipUrl = Some (trim (st_zipUrl s))\<rparr>
            in (case onAdd repo of
                  Fulfilled \<Rightarrow> zipThen s1
                | Rejected e \<Rightarrow> addCatch e s1,
                [repo])))"

section \<open>The platform's URL parser\<close>

text \<open>
  \<open>new URL(x)\<close>, with no base, runs the basic URL parser of the URL Standard and throws
  when it fails. The input first loses its leading and trailing C0 controls and spaces
  (code units up to \<open>0x20\<close>) and every tab and newline.
\<close>

definition isC0ControlOrSpace :: "char \<Rightarrow> bool" where
  "isC0ControlOrSpace c = (of_char c \<le> (32::nat))"

definition isAsciiTabOrNewline :: "char \<Rightarrow> bool" where
  "isAsciiTabOrNewline c = (c = CHR 0x09 \<or> c = CHR 0x0A \<or> c = CHR 0x0D)"

definition urlInput :: "string \<Rightarrow> string" where
  "urlInput x =
     filter (\<lambda>c. \<not> isAsciiTabOrNewline c)
       (rev (dropWhile isC0ControlOrSpace (rev (dropWhile isC0ControlOrSpace x))))"

definition isAsciiAlpha :: "char \<Rightarrow> bool" where
  "isAsciiAlpha c = (c \<in> set ''abcdefghijklmnopqrstuvwxyzABCDEFGHIJKLMNOPQRSTUVWXYZ'')"

definition isSchemeCodePoint :: "char \<Rightarrow> bool" where
  "isSchemeCodePoint c = (isAsciiAlpha c \<or> c \<in> set ''0123456789+-.'')"

definition asciiLower :: "char \<Rightarrow> char" where
  "asciiLower c =
     (case map_of (zip ''ABCDEFGHIJKLMNOPQRSTUVWXYZ'' ''abcdefghijklmnopqrstuvwxyz'') c of
        Some l \<Rightarrow> l
      | None \<Rightarrow> c)"

text \<open>
  Scheme start state and scheme state: an ASCII letter, then letters, digits, \<open>+\<close>,
  \<open>-\<close> and \<open>.\<close> up to a \<open>:\<close>. The result is the scheme in lower case and what
  remains after the \<open>:\<close>. Anything else leads to the no scheme state, which fails
  when there is no base.
\<close>

definition urlScheme :: "string \<Rightarrow> (string \<times> string) option" where
  "urlScheme s =
     (case s of
        [] \<Rightarrow> None
      | c # cs \<Rightarrow>
          if isAsciiAlpha c
          then (case dropWhile isSchemeCodePoint s of
                  [] \<Rightarrow> None
                | d # remaining \<Rightarrow>
                    if d = CHR '':''
                    then Some (map asciiLower (takeWhile isSchemeCodePoint s), remaining)
                    else None)
          else None)"

definition isSpecialScheme :: "string \<Rightarrow> bool" where
  "isSpecialScheme scheme =
     (scheme = ''ftp'' \<or> scheme = ''file'' \<or> scheme = ''http'' \<or> scheme = ''https''
      \<or> scheme = ''ws'' \<or> scheme = ''wss'')"

text \<open>
  After the scheme: a special scheme goes on to the authority or file states; any other
  scheme goes to the authority state when \<open>//\<close> follows, and otherwise to the path or
  opaque path state, and from there through the query and fragment states, none of
  which can fail. The states that read an authority (credentials, host, port, file host)
  are not modelled: their verdict on the scheme and the remaining input is the parameter
  \<open>authorityStates\<close>.
\<close>

definition newURL :: "(string \<Rightarrow> string \<Rightarrow> bool) \<Rightarrow> string \<Rightarrow> bool" where
  "newURL authorityStates x =
     (case urlScheme (urlInput x) of
        None \<Rightarrow> False
      | Some (scheme, remaining) \<Rightarrow>
          if isSpecialScheme scheme then authorityStates scheme remaining
          else if startsWith remaining ''//'' then authorityStates scheme remaining
          else True)"

section \<open>RepoManager: the pure helpers of the dialog\<close>

definition RepoManager_getSkillCount :: "DiscoverableSkill list \<Rightarrow> SkillRepo \<Rightarrow> nat" where
  "RepoManager_getSkillCount skills repo =
     (if repoType repo = Zip
      then length (filter (\<lambda>skill. repoName skill = name repo) skills)
      else length (filter (\<lambda>skill.
             repoOwner skill = owner repo \<and>
             repoName skill = name repo \<and>
             orElseOpt (repoBranch skill) ''main'' = orElseOpt (branch repo) ''main'') skills))"

definition RepoManager_parseRepoUrl :: "string \<Rightarrow> (string \<times> string) option" where
  "RepoManager_parseRepoUrl url =
     (let c0 = trim url;
          c1 = replaceGithubPrefix c0;
          c2 = replaceGitSuffix c1;
          parts = split CHR ''/'' c2
      in if length parts = 2 \<and> parts ! 0 \<noteq> [] \<and> parts ! 1 \<noteq> []
         then Some (parts ! 0, parts ! 1)
         else None)"

definition RepoManager_getRepoDisplayName :: "SkillRepo \<Rightarrow> string" where
  "RepoManager_getRepoDisplayName repo =
     (if repoType repo = Zip then name repo
      else owner repo @ ''/'' @ name repo)"

definition RepoManager_getRepoSubtitle :: "SkillRepo \<Rightarrow> message list" where
  "RepoManager_getRepoSubtitle repo =
     (if repoType repo = Zip then [Plain (orElseOpt (zipUrl repo) '''')]
      else [Translated ''skills.repo.branch'', Plain '': '',
            Plain (orElseOpt (branch repo) ''main'')])"

section \<open>Facts about the string primitives\<close>

lemma length_split: "length (split sep s) = Suc (length (filter (\<lambda>c. c = sep) s))"
  by (induction s) (auto split: list.splits)

lemma split_no_sep: "sep \<notin> set s \<Longrightarrow> split sep s = [s]"
  by (induction s) (auto split: list.splits)

lemma split_append: "sep \<notin> set a \<Longrightarrow> split sep (a @ sep # b) = a # split sep b"
  by (induction a) (auto split: list.splits)

lemma in_set_split: "p \<in> set (split sep s) \<Longrightarrow> sep \<notin> set p"
  by (induction s arbitrary: p) (auto split: list.splits if_splits)

lemma split_one: 
  assumes "split sep s = [b]" shows "s = b"
proof -
  have "length (filter (\<lambda>c. c = sep) s) = 0"
    using length_split[of sep s] assms by simp
  then have "sep \<notin> set s"
    by (auto simp: filter_empty_conv)
  then show ?thesis using split_no_sep[of sep s] assms by simp
qed

lemma split_two: "split sep s = [a, b] \<Longrightarrow> s = a @ sep # b"
proof (induction s arbitrary: a)
  case Nil
  then show ?case by simp
next
  case (Cons c cs)
  show ?case
  proof (cases "c = sep")
    case True
    with Cons.prems have "a = []" "split sep cs = [b]" by auto
    then show ?thesis using True split_one[of sep cs b] by simp
  next
    case False
    then show ?thesis using Cons by (auto split: list.splits)
  qed
qed

lemma parseRepoUrl_Some_iff:
  "parseRepoUrl url = Some (ow, nm) \<longleftrightarrow>
     ow \<noteq> [] \<and> nm \<noteq> [] \<and> CHR ''/'' \<notin> set ow \<and> CHR ''/'' \<notin> set nm \<and>
     cleaned url = ow @ ''/'' @ nm"
proof
  assume h: "parseRepoUrl url = Some (ow, nm)"
  define parts where "parts = split CHR ''/'' (cleaned url)"
  from h have l: "length parts = 2" and ne: "parts ! 0 \<noteq> []" "parts ! 1 \<noteq> []"
    and eq: "parts ! 0 = ow" "parts ! 1 = nm"
    by (auto simp: parseRepoUrl_def parts_def Let_def split: if_splits)
  from l eq have p: "parts = [ow, nm]"
    by (cases parts; cases "tl parts") auto
  then have "cleaned url = ow @ CHR ''/'' # nm"
    using split_two[of "CHR ''/''" "cleaned url" ow nm] by (simp add: parts_def)
  moreover have "CHR ''/'' \<notin> set ow" "CHR ''/'' \<notin> set nm"
    using in_set_split[of ow "CHR ''/''" "cleaned url"] in_set_split[of nm "CHR ''/''" "cleaned url"] p
    by (simp_all add: parts_def)
  ultimately show "ow \<noteq> [] \<and> nm \<noteq> [] \<and> CHR ''/'' \<notin> set ow \<and> CHR ''/'' \<notin> set nm \<and>
     cleaned url = ow @ ''/'' @ nm"
    using ne eq by simp
next
  assume h: "ow \<noteq> [] \<and> nm \<noteq> [] \<and> CHR ''/'' \<notin> set ow \<and> CHR ''/'' \<notin> set nm \<and>
     cleaned url = ow @ ''/'' @ nm"
  then have "split CHR ''/'' (cleaned url) = [ow, nm]"
    using split_append[of "CHR ''/''" ow nm] split_no_sep[of "CHR ''/''" nm] by simp
  with h show "parseRepoUrl url = Some (ow, nm)"
    by (simp add: parseRepoUrl_def)
qed

lemma trim_Cons: "\<not> isWhiteSpace c \<Longrightarrow> trim (c # cs) = c # rev (dropWhile isWhiteSpace (rev cs))"
  by (simp add: trim_def dropWhile_append3)

lemma dropWhile_hd: "xs \<noteq> [] \<Longrightarrow> \<not> P (hd xs) \<Longrightarrow> dropWhile P xs = xs"
  by (cases xs) auto

lemma trim_id:
  assumes "s \<noteq> []" "\<not> isWhiteSpace (hd s)" "\<not> isWhiteSpace (last s)"
  shows "trim s = s"
proof -
  from assms have a: "dropWhile isWhiteSpace s = s"
    by (simp add: dropWhile_hd)
  from assms have "dropWhile isWhiteSpace (rev s) = rev s"
    by (simp add: dropWhile_hd hd_rev)
  with a show ?thesis by (simp add: trim_def)
qed

lemma orElseOpt_cases:
  "orElseOpt x d = (case x of None \<Rightarrow> d | Some b \<Rightarrow> if b = [] then d else b)"
  by (simp add: orElseOpt_def orElse_def split: option.splits)

lemma filter_dropWhile: "\<not> P c \<Longrightarrow> filter (\<lambda>x. x = c) (dropWhile P s) = filter (\<lambda>x. x = c) s"
  by (induction s) auto

lemma filter_trim: "\<not> isWhiteSpace c \<Longrightarrow> filter (\<lambda>x. x = c) (trim s) = filter (\<lambda>x. x = c) s"
proof -
  assume c: "\<not> isWhiteSpace c"
  have "filter (\<lambda>x. x = c) (trim s) = rev (filter (\<lambda>x. x = c) (dropWhile isWhiteSpace (rev (dropWhile isWhiteSpace s))))"
    by (simp add: trim_def rev_filter)
  also have "\<dots> = rev (filter (\<lambda>x. x = c) (rev (dropWhile isWhiteSpace s)))"
    using c by (simp add: filter_dropWhile)
  also have "\<dots> = filter (\<lambda>x. x = c) s"
    using c by (simp add: rev_filter filter_dropWhile)
  finally show ?thesis .
qed

lemma endsWith_iff: "endsWith s p \<longleftrightarrow> (\<exists>x. s = x @ p)"
proof
  assume "endsWith s p"
  then have "s = take (length s - length p) s @ p"
    by (metis append_take_drop_id endsWith_def)
  then show "\<exists>x. s = x @ p" ..
next
  assume "\<exists>x. s = x @ p"
  then show "endsWith s p" by (auto simp: endsWith_def)
qed

lemma replaceGitSuffix_append: "replaceGitSuffix (x @ ''.git'') = x"
  by (simp add: replaceGitSuffix_def endsWith_def)

lemma replaceGitSuffix_id: "\<not> endsWith s ''.git'' \<Longrightarrow> replaceGitSuffix s = s"
  by (simp add: replaceGitSuffix_def)

lemma filter_replaceGitSuffix:
  "filter (\<lambda>x. x = CHR ''/'') (replaceGitSuffix s) = filter (\<lambda>x. x = CHR ''/'') s"
proof (cases "endsWith s ''.git''")
  case True
  then obtain x where "s = x @ ''.git''" by (auto simp: endsWith_iff)
  then show ?thesis by (simp add: replaceGitSuffix_append del: append.simps)
next
  case False
  then show ?thesis by (simp add: replaceGitSuffix_id)
qed

lemma endsWith_after_sep:
  assumes "endsWith (a @ c # b) p" "c \<notin> set p"
  shows "endsWith b p"
proof -
  from assms(1) obtain x where x: "a @ c # b = x @ p" by (auto simp: endsWith_iff)
  then obtain us where "(a = x @ us \<and> us @ c # b = p) \<or> (a @ us = x \<and> c # b = us @ p)"
    by (auto simp: append_eq_append_conv2)
  then show ?thesis
  proof
    assume "a = x @ us \<and> us @ c # b = p"
    then have "c \<in> set p" by auto
    with assms(2) show ?thesis by simp
  next
    assume h: "a @ us = x \<and> c # b = us @ p"
    show ?thesis
    proof (cases us)
      case Nil
      with h have "c \<in> set p" by (metis append_Nil list.set_intros(1))
      with assms(2) show ?thesis by simp
    next
      case (Cons u us')
      with h have "b = us' @ p" by simp
      then show ?thesis by (auto simp: endsWith_iff)
    qed
  qed
qed

lemma replaceGithubPrefix_https: "replaceGithubPrefix (''https://github.com/'' @ r) = r"
  by (simp add: replaceGithubPrefix_def startsWith_def)

lemma replaceGithubPrefix_http: "replaceGithubPrefix (''http://github.com/'' @ r) = r"
  by (simp add: replaceGithubPrefix_def startsWith_def)

lemma startsWith_D: "startsWith s p \<Longrightarrow> s = p @ drop (length p) s"
  by (metis append_take_drop_id startsWith_def)

lemma replaceGithubPrefix_few_slashes:
  assumes "length (filter (\<lambda>x. x = CHR ''/'') s) < 3"
  shows "replaceGithubPrefix s = s"
proof -
  have "\<not> startsWith s ''https://github.com/''"
  proof
    assume "startsWith s ''https://github.com/''"
    then have "s = ''https://github.com/'' @ drop (length ''https://github.com/'') s" by (rule startsWith_D)
    then have "length (filter (\<lambda>x. x = CHR ''/'') s) = length (filter (\<lambda>x. x = CHR ''/'') (''https://github.com/'' @ drop (length ''https://github.com/'') s))"
      by simp
    with assms show False by simp
  qed
  moreover have "\<not> startsWith s ''http://github.com/''"
  proof
    assume "startsWith s ''http://github.com/''"
    then have "s = ''http://github.com/'' @ drop (length ''http://github.com/'') s" by (rule startsWith_D)
    then have "length (filter (\<lambda>x. x = CHR ''/'') s) = length (filter (\<lambda>x. x = CHR ''/'') (''http://github.com/'' @ drop (length ''http://github.com/'') s))"
      by simp
    with assms show False by simp
  qed
  ultimately show ?thesis by (simp add: replaceGithubPrefix_def)
qed

lemma replaceGithubPrefix_g: "replaceGithubPrefix (CHR ''g'' # r) = CHR ''g'' # r"
  by (simp add: replaceGithubPrefix_def startsWith_def)

section \<open>Facts about the cleaning steps and the handlers\<close>

lemma cleaned_https_git:
  "cleaned (''https://github.com/'' @ r @ ''.git'') = r"
proof -
  let ?u = "''https://github.com/'' @ r @ ''.git''"
  have "trim ?u = ?u"
    by (rule trim_id) (simp_all add: isWhiteSpace_def)
  then show ?thesis
    by (simp only: cleaned_def replaceGithubPrefix_https replaceGitSuffix_append)
qed

lemma cleaned_https:
  assumes "r \<noteq> []" "\<not> isWhiteSpace (last r)" "\<not> endsWith r ''.git''"
  shows "cleaned (''https://github.com/'' @ r) = r"
proof -
  let ?u = "''https://github.com/'' @ r"
  have "trim ?u = ?u"
    using assms by (intro trim_id) (simp_all add: isWhiteSpace_def)
  moreover have "replaceGithubPrefix ?u = r"
    by (rule replaceGithubPrefix_https)
  moreover have "replaceGitSuffix r = r"
    using assms(3) by (rule replaceGitSuffix_id)
  ultimately show ?thesis
    by (simp only: cleaned_def)
qed

lemma cleaned_bare:
  assumes "r \<noteq> []" "\<not> isWhiteSpace (hd r)" "\<not> isWhiteSpace (last r)"
    and "\<not> endsWith r ''.git''" "length (filter (\<lambda>x. x = CHR ''/'') r) < 3"
  shows "cleaned r = r"
  using assms by (simp add: cleaned_def trim_id replaceGithubPrefix_few_slashes replaceGitSuffix_id)

lemma replaceGitSuffix_cases: "s = replaceGitSuffix s \<or> s = replaceGitSuffix s @ ''.git''"
proof (cases "endsWith s ''.git''")
  case True
  then obtain x where "s = x @ ''.git''" by (auto simp: endsWith_iff)
  then show ?thesis using replaceGitSuffix_append[of x] by simp
next
  case False
  then show ?thesis by (simp add: replaceGitSuffix_id)
qed

lemma replaceGithubPrefix_cases:
  "s = replaceGithubPrefix s \<or> s = ''https://github.com/'' @ replaceGithubPrefix s
   \<or> s = ''http://github.com/'' @ replaceGithubPrefix s"
proof -
  consider "startsWith s ''https://github.com/''"
    | "\<not> startsWith s ''https://github.com/''" "startsWith s ''http://github.com/''"
    | "\<not> startsWith s ''https://github.com/''" "\<not> startsWith s ''http://github.com/''"
    by blast
  then show ?thesis
  proof cases
    case 1
    then show ?thesis using startsWith_D[OF 1] by (simp add: replaceGithubPrefix_def)
  next
    case 2
    then show ?thesis using startsWith_D[OF 2(2)] by (simp add: replaceGithubPrefix_def)
  next
    case 3
    then show ?thesis by (simp add: replaceGithubPrefix_def)
  qed
qed

lemma cleaned_cases:
  "trim url = cleaned url \<or> trim url = cleaned url @ ''.git''
   \<or> trim url = ''https://github.com/'' @ cleaned url
   \<or> trim url = ''https://github.com/'' @ cleaned url @ ''.git''
   \<or> trim url = ''http://github.com/'' @ cleaned url
   \<or> trim url = ''http://github.com/'' @ cleaned url @ ''.git''"
  using replaceGithubPrefix_cases[of "trim url"] replaceGitSuffix_cases[of "replaceGithubPrefix (trim url)"]
  unfolding cleaned_def by metis

lemmas handler_defs = handleAddGithub_def handleAddZip_def githubThen_def zipThen_def addCatch_def Let_def

lemmas url_defs = newURL_def urlScheme_def urlInput_def isC0ControlOrSpace_def isAsciiTabOrNewline_def
  isAsciiAlpha_def isSchemeCodePoint_def asciiLower_def isSpecialScheme_def startsWith_def

section \<open>The parser\<close>

text \<open>
  Claim C2, as amended. \<open>parseRepoUrl\<close> trims the input, removes a leading
  \<open>http://github.com/\<close> or \<open>https://github.com/\<close>, removes a trailing \<open>.git\<close>,
  splits the rest on \<open>/\<close>, and returns the two pieces exactly when there are exactly
  two and both are non-empty; every other shape gives \<open>null\<close>. Put differently, it
  returns \<open>{owner, name}\<close> exactly when both are non-empty, contain no \<open>/\<close>, and the
  cleaned input is \<open>owner/name\<close>. For non-empty \<open>OWNER\<close> and \<open>NAME\<close> without \<open>/\<close>:
  \<open>https://github.com/OWNER/NAME.git\<close> always gives \<open>{OWNER, NAME}\<close>;
  \<open>https://github.com/OWNER/NAME\<close> does when \<open>NAME\<close> neither ends in white space nor
  in \<open>.git\<close>; and \<open>OWNER/NAME\<close> does when in addition \<open>OWNER\<close> does not start with
  white space.
\<close>

theorem parseRepoUrl_shape:
  "parseRepoUrl url =
     (case split CHR ''/'' (replaceGitSuffix (replaceGithubPrefix (trim url))) of
        [p0, p1] \<Rightarrow> if p0 \<noteq> [] \<and> p1 \<noteq> [] then Some (p0, p1) else None
      | _ \<Rightarrow> None)
   \<and> (parseRepoUrl url = Some (ow, nm) \<longleftrightarrow>
        ow \<noteq> [] \<and> nm \<noteq> [] \<and> CHR ''/'' \<notin> set ow \<and> CHR ''/'' \<notin> set nm \<and>
        replaceGitSuffix (replaceGithubPrefix (trim url)) = ow @ ''/'' @ nm)
   \<and> (ow \<noteq> [] \<and> nm \<noteq> [] \<and> CHR ''/'' \<notin> set ow \<and> CHR ''/'' \<notin> set nm \<longrightarrow>
        parseRepoUrl (''https://github.com/'' @ ow @ ''/'' @ nm @ ''.git'') = Some (ow, nm)
        \<and> (\<not> isWhiteSpace (last nm) \<and> \<not> endsWith nm ''.git'' \<longrightarrow>
             parseRepoUrl (''https://github.com/'' @ ow @ ''/'' @ nm) = Some (ow, nm))
        \<and> (\<not> isWhiteSpace (hd ow) \<and> \<not> isWhiteSpace (last nm) \<and> \<not> endsWith nm ''.git'' \<longrightarrow>
             parseRepoUrl (ow @ ''/'' @ nm) = Some (ow, nm)))"
proof (intro conjI impI)
  show "parseRepoUrl url =
     (case split CHR ''/'' (replaceGitSuffix (replaceGithubPrefix (trim url))) of
        [p0, p1] \<Rightarrow> if p0 \<noteq> [] \<and> p1 \<noteq> [] then Some (p0, p1) else None
      | _ \<Rightarrow> None)"
    by (simp add: parseRepoUrl_def cleaned_def split: list.splits)
next
  show "parseRepoUrl url = Some (ow, nm) \<longleftrightarrow>
        ow \<noteq> [] \<and> nm \<noteq> [] \<and> CHR ''/'' \<notin> set ow \<and> CHR ''/'' \<notin> set nm \<and>
        replaceGitSuffix (replaceGithubPrefix (trim url)) = ow @ ''/'' @ nm"
    by (simp only: parseRepoUrl_Some_iff cleaned_def)
next
  assume h: "ow \<noteq> [] \<and> nm \<noteq> [] \<and> CHR ''/'' \<notin> set ow \<and> CHR ''/'' \<notin> set nm"
  have "cleaned (''https://github.com/'' @ (ow @ ''/'' @ nm) @ ''.git'') = ow @ ''/'' @ nm"
    by (rule cleaned_https_git)
  with h show "parseRepoUrl (''https://github.com/'' @ ow @ ''/'' @ nm @ ''.git'') = Some (ow, nm)"
    by (simp add: parseRepoUrl_Some_iff)
next
  assume h: "ow \<noteq> [] \<and> nm \<noteq> [] \<and> CHR ''/'' \<notin> set ow \<and> CHR ''/'' \<notin> set nm"
    and k: "\<not> isWhiteSpace (last nm) \<and> \<not> endsWith nm ''.git''"
  have "\<not> endsWith (ow @ ''/'' @ nm) ''.git''"
    using k endsWith_after_sep[of ow "CHR ''/''" nm "''.git''"] by auto
  then have "cleaned (''https://github.com/'' @ (ow @ ''/'' @ nm)) = ow @ ''/'' @ nm"
    using h k by (intro cleaned_https) simp_all
  with h show "parseRepoUrl (''https://github.com/'' @ ow @ ''/'' @ nm) = Some (ow, nm)"
    by (simp add: parseRepoUrl_Some_iff)
next
  assume h: "ow \<noteq> [] \<and> nm \<noteq> [] \<and> CHR ''/'' \<notin> set ow \<and> CHR ''/'' \<notin> set nm"
    and k: "\<not> isWhiteSpace (hd ow) \<and> \<not> isWhiteSpace (last nm) \<and> \<not> endsWith nm ''.git''"
  have e: "\<not> endsWith (ow @ ''/'' @ nm) ''.git''"
    using k endsWith_after_sep[of ow "CHR ''/''" nm "''.git''"] by auto
  have "filter (\<lambda>x. x = CHR ''/'') ow = []" "filter (\<lambda>x. x = CHR ''/'') nm = []"
    using h by (auto simp: filter_empty_conv)
  then have n: "length (filter (\<lambda>x. x = CHR ''/'') (ow @ ''/'' @ nm)) < 3"
    by simp
  have "cleaned (ow @ ''/'' @ nm) = ow @ ''/'' @ nm"
    using h k e n by (intro cleaned_bare) simp_all
  with h show "parseRepoUrl (ow @ ''/'' @ nm) = Some (ow, nm)"
    by (simp add: parseRepoUrl_Some_iff)
qed

theorem parseRepoUrl_shape_witness:
  "''a'' \<noteq> [] \<and> ''b'' \<noteq> [] \<and> CHR ''/'' \<notin> set ''a'' \<and> CHR ''/'' \<notin> set ''b''
   \<and> \<not> isWhiteSpace (hd ''a'') \<and> \<not> isWhiteSpace (last ''b'') \<and> \<not> endsWith ''b'' ''.git''
   \<and> parseRepoUrl ''https://github.com/a/b.git'' = Some (''a'', ''b'')
   \<and> parseRepoUrl ''https://github.com/a/b'' = Some (''a'', ''b'')
   \<and> parseRepoUrl ''a/b'' = Some (''a'', ''b'')
   \<and> parseRepoUrl ''  http://github.com/a/b.git '' = Some (''a'', ''b'')"
  using parseRepoUrl_shape [of "''  http://github.com/a/b.git ''" "''a''" "''b''"]
  by (simp add: isWhiteSpace_def endsWith_def trim_def replaceGithubPrefix_def
      startsWith_def replaceGitSuffix_def)

text \<open>
  Claim C2 as stated promises \<open>{OWNER, NAME}\<close> for every input \<open>OWNER/NAME\<close> with
  non-empty, slash-free parts. With \<open>OWNER = a\<close> and \<open>NAME = b.git\<close> the trailing
  \<open>.git\<close> is removed before the split and the name returned is \<open>b\<close>.
\<close>

theorem parseRepoUrl_dot_git_name_counterexample:
  "parseRepoUrl (''a'' @ ''/'' @ ''b.git'') = Some (''a'', ''b'')
   \<and> parseRepoUrl (''a'' @ ''/'' @ ''b.git'') \<noteq> Some (''a'', ''b.git'')"
  by (simp add: parseRepoUrl_def cleaned_def trim_def isWhiteSpace_def
      replaceGithubPrefix_def startsWith_def replaceGitSuffix_def endsWith_def)

text \<open>
  Claim C9. An input \<open>github.com/OWNER/NAME\<close>, the host without \<open>http://\<close> or
  \<open>https://\<close> in front, is rejected: the pattern removes the host only together with
  the scheme, so at least two \<open>/\<close> remain and the split has at least three pieces.
  This holds for every \<open>OWNER\<close> and \<open>NAME\<close>, empty ones included. Conversely, an
  input that parses to \<open>{OWNER, NAME}\<close> is, once trimmed, \<open>OWNER/NAME\<close> with nothing
  or with \<open>http://github.com/\<close> or \<open>https://github.com/\<close> in front, and with
  nothing or \<open>.git\<close> behind.
\<close>

theorem parseRepoUrl_host_without_scheme:
  "parseRepoUrl (''github.com/'' @ ow @ ''/'' @ nm) = None
   \<and> (parseRepoUrl url = Some (ow, nm) \<longrightarrow>
        trim url = ow @ ''/'' @ nm
        \<or> trim url = ow @ ''/'' @ nm @ ''.git''
        \<or> trim url = ''https://github.com/'' @ ow @ ''/'' @ nm
        \<or> trim url = ''https://github.com/'' @ ow @ ''/'' @ nm @ ''.git''
        \<or> trim url = ''http://github.com/'' @ ow @ ''/'' @ nm
        \<or> trim url = ''http://github.com/'' @ ow @ ''/'' @ nm @ ''.git'')"
proof
  let ?url = "''github.com/'' @ ow @ ''/'' @ nm"
  let ?n = "\<lambda>s. length (filter (\<lambda>x. x = CHR ''/'') s)"
  have g: "\<not> isWhiteSpace CHR ''g''" and sl: "\<not> isWhiteSpace CHR ''/''"
    by (simp_all add: isWhiteSpace_def)
  obtain r where r: "trim ?url = CHR ''g'' # r"
    using trim_Cons[OF g] by simp
  have "replaceGithubPrefix (trim ?url) = trim ?url"
    by (simp only: r replaceGithubPrefix_g)
  then have "?n (cleaned ?url) = ?n (trim ?url)"
    by (simp only: cleaned_def filter_replaceGitSuffix)
  also have "\<dots> = ?n ?url"
    by (simp only: filter_trim[OF sl])
  also have "\<dots> \<ge> 2" by simp
  finally have "length (split CHR ''/'' (cleaned ?url)) \<ge> 3"
    by (simp add: length_split)
  then show "parseRepoUrl ?url = None" by (simp add: parseRepoUrl_def)
next
  show "parseRepoUrl url = Some (ow, nm) \<longrightarrow>
        trim url = ow @ ''/'' @ nm
        \<or> trim url = ow @ ''/'' @ nm @ ''.git''
        \<or> trim url = ''https://github.com/'' @ ow @ ''/'' @ nm
        \<or> trim url = ''https://github.com/'' @ ow @ ''/'' @ nm @ ''.git''
        \<or> trim url = ''http://github.com/'' @ ow @ ''/'' @ nm
        \<or> trim url = ''http://github.com/'' @ ow @ ''/'' @ nm @ ''.git''"
  proof
    assume "parseRepoUrl url = Some (ow, nm)"
    then have c: "cleaned url = ow @ ''/'' @ nm"
      by (simp add: parseRepoUrl_Some_iff)
    show "trim url = ow @ ''/'' @ nm
        \<or> trim url = ow @ ''/'' @ nm @ ''.git''
        \<or> trim url = ''https://github.com/'' @ ow @ ''/'' @ nm
        \<or> trim url = ''https://github.com/'' @ ow @ ''/'' @ nm @ ''.git''
        \<or> trim url = ''http://github.com/'' @ ow @ ''/'' @ nm
        \<or> trim url = ''http://github.com/'' @ ow @ ''/'' @ nm @ ''.git''"
      using cleaned_cases[of url] unfolding c by (simp only: append_assoc)
  qed
qed

theorem parseRepoUrl_host_without_scheme_witness:
  "parseRepoUrl ''github.com/a/b'' = None
   \<and> parseRepoUrl '' http://github.com/a/b.git  '' = Some (''a'', ''b'')
   \<and> trim '' http://github.com/a/b.git  '' = ''http://github.com/'' @ ''a'' @ ''/'' @ ''b'' @ ''.git''"
proof -
  have p: "parseRepoUrl '' http://github.com/a/b.git  '' = Some (''a'', ''b'')"
    by (simp add: parseRepoUrl_def cleaned_def trim_def isWhiteSpace_def
        replaceGithubPrefix_def startsWith_def replaceGitSuffix_def endsWith_def)
  have n: "parseRepoUrl (''github.com/'' @ ''a'' @ ''/'' @ ''b'') = None"
    using parseRepoUrl_host_without_scheme [of "''a''" "''b''" "'' http://github.com/a/b.git  ''"]
    by (rule conjunct1)
  have "trim '' http://github.com/a/b.git  '' = ''a'' @ ''/'' @ ''b''
        \<or> trim '' http://github.com/a/b.git  '' = ''a'' @ ''/'' @ ''b'' @ ''.git''
        \<or> trim '' http://github.com/a/b.git  '' = ''https://github.com/'' @ ''a'' @ ''/'' @ ''b''
        \<or> trim '' http://github.com/a/b.git  '' = ''https://github.com/'' @ ''a'' @ ''/'' @ ''b'' @ ''.git''
        \<or> trim '' http://github.com/a/b.git  '' = ''http://github.com/'' @ ''a'' @ ''/'' @ ''b''
        \<or> trim '' http://github.com/a/b.git  '' = ''http://github.com/'' @ ''a'' @ ''/'' @ ''b'' @ ''.git''"
    using parseRepoUrl_host_without_scheme [of "''a''" "''b''" "'' http://github.com/a/b.git  ''"] p
    by blast
  then have "trim '' http://github.com/a/b.git  '' = ''http://github.com/'' @ ''a'' @ ''/'' @ ''b'' @ ''.git''"
    by (simp add: trim_def isWhiteSpace_def)
  with p n show ?thesis by simp
qed

section \<open>The skill count\<close>

text \<open>
  Claim C1, as amended. For a repository that is not a package link, \<open>getSkillCount\<close>
  is the number of skills whose \<open>repoOwner\<close> and \<open>repoName\<close> equal the repository's
  \<open>owner\<close> and \<open>name\<close> and whose effective branch equals the repository's, where the
  effective branch is \<open>"main"\<close> for a branch that is absent or the empty string, and
  the recorded branch otherwise. For a repository without a branch, a skill of the same
  owner and name counts when it has no branch and does not count when its branch is
  \<open>"dev"\<close>.
\<close>

theorem getSkillCount_sourceControl:
  "repoType repo = Github \<Longrightarrow>
     getSkillCount skills repo =
       length (filter (\<lambda>skill.
         repoOwner skill = owner repo \<and>
         repoName skill = name repo \<and>
         (case repoBranch skill of None \<Rightarrow> ''main'' | Some b \<Rightarrow> if b = [] then ''main'' else b) =
         (case branch repo of None \<Rightarrow> ''main'' | Some b \<Rightarrow> if b = [] then ''main'' else b)) skills)
     \<and> getSkillCount [\<lparr>repoOwner = owner repo, repoName = name repo, repoBranch = None\<rparr>]
          (repo\<lparr>branch := None\<rparr>) = 1
     \<and> getSkillCount [\<lparr>repoOwner = owner repo, repoName = name repo, repoBranch = Some ''dev''\<rparr>]
          (repo\<lparr>branch := None\<rparr>) = 0"
  by (simp add: getSkillCount_def orElseOpt_cases)

theorem getSkillCount_sourceControl_witness:
  "repoType \<lparr>owner = ''a'', name = ''b'', branch = None, enabled = True,
             repoType = Github, zipUrl = None\<rparr> = Github
   \<and> getSkillCount
        [\<lparr>repoOwner = ''a'', repoName = ''b'', repoBranch = None\<rparr>,
         \<lparr>repoOwner = ''a'', repoName = ''b'', repoBranch = Some ''dev''\<rparr>,
         \<lparr>repoOwner = ''a'', repoName = ''b'', repoBranch = Some ''''\<rparr>,
         \<lparr>repoOwner = ''a'', repoName = ''c'', repoBranch = Some ''main''\<rparr>,
         \<lparr>repoOwner = ''a'', repoName = ''b'', repoBranch = Some ''main''\<rparr>]
        \<lparr>owner = ''a'', name = ''b'', branch = None, enabled = True,
         repoType = Github, zipUrl = None\<rparr> = 3"
  using getSkillCount_sourceControl
    [of "\<lparr>owner = ''a'', name = ''b'', branch = None, enabled = True,
          repoType = Github, zipUrl = None\<rparr>"
        "[\<lparr>repoOwner = ''a'', repoName = ''b'', repoBranch = None\<rparr>,
         \<lparr>repoOwner = ''a'', repoName = ''b'', repoBranch = Some ''dev''\<rparr>,
         \<lparr>repoOwner = ''a'', repoName = ''b'', repoBranch = Some ''''\<rparr>,
         \<lparr>repoOwner = ''a'', repoName = ''c'', repoBranch = Some ''main''\<rparr>,
         \<lparr>repoOwner = ''a'', repoName = ''b'', repoBranch = Some ''main''\<rparr>]"]
  by simp

text \<open>
  Claim C1 as stated defaults an absent branch only. The repository \<open>a/b\<close> on branch
  \<open>"main"\<close> and one skill of \<open>a/b\<close> whose \<open>repoBranch\<close> is present and is the empty
  string: compared with absent-only defaulting the branches \<open>""\<close> and \<open>"main"\<close>
  differ and the count would be 0; \<open>getSkillCount\<close> returns 1.
\<close>

theorem getSkillCount_absent_only_counterexample:
  "getSkillCount
     [\<lparr>repoOwner = ''a'', repoName = ''b'', repoBranch = Some ''''\<rparr>]
     \<lparr>owner = ''a'', name = ''b'', branch = Some ''main'', enabled = True,
      repoType = Github, zipUrl = None\<rparr>
   \<noteq> length (filter (\<lambda>skill.
         repoOwner skill = ''a'' \<and>
         repoName skill = ''b'' \<and>
         (case repoBranch skill of None \<Rightarrow> ''main'' | Some b \<Rightarrow> b) =
         (case Some ''main'' of None \<Rightarrow> ''main'' | Some b \<Rightarrow> b))
       [\<lparr>repoOwner = ''a'', repoName = ''b'', repoBranch = Some ''''\<rparr>])"
  by (simp add: getSkillCount_def orElseOpt_def orElse_def)

text \<open>
  Claim C7. For a package-link repository \<open>getSkillCount\<close> is the number of skills
  whose \<open>repoName\<close> equals the repository's \<open>name\<close>. Overwriting the \<open>repoOwner\<close> and
  \<open>repoBranch\<close> of every skill, or the \<open>owner\<close> and \<open>branch\<close> of the repository, with
  anything at all leaves the count unchanged, and two skills carrying the repository's
  name count as 2 whatever their owner and branch.
\<close>

theorem getSkillCount_packageLink:
  "repoType repo = Zip \<Longrightarrow>
     getSkillCount skills repo = length (filter (\<lambda>skill. repoName skill = name repo) skills)
     \<and> getSkillCount (map (\<lambda>skill. skill\<lparr>repoOwner := f skill, repoBranch := g skill\<rparr>) skills) repo
         = getSkillCount skills repo
     \<and> getSkillCount skills (repo\<lparr>owner := ow, branch := br\<rparr>) = getSkillCount skills repo
     \<and> getSkillCount
          [\<lparr>repoOwner = o1, repoName = name repo, repoBranch = b1\<rparr>,
           \<lparr>repoOwner = o2, repoName = name repo, repoBranch = b2\<rparr>] repo = 2"
  by (simp add: getSkillCount_def filter_map comp_def)

theorem getSkillCount_packageLink_witness:
  "repoType \<lparr>owner = ''zip'', name = ''pack1'', branch = Some '''', enabled = True,
             repoType = Zip, zipUrl = Some ''https://x.com/a.zip''\<rparr> = Zip
   \<and> getSkillCount
        [\<lparr>repoOwner = ''zip'', repoName = ''pack1'', repoBranch = None\<rparr>,
         \<lparr>repoOwner = ''someone'', repoName = ''pack1'', repoBranch = Some ''dev''\<rparr>]
        \<lparr>owner = ''zip'', name = ''pack1'', branch = Some '''', enabled = True,
         repoType = Zip, zipUrl = Some ''https://x.com/a.zip''\<rparr> = 2"
  using getSkillCount_packageLink
    [where repo = "\<lparr>owner = ''zip'', name = ''pack1'', branch = Some '''', enabled = True,
          repoType = Zip, zipUrl = Some ''https://x.com/a.zip''\<rparr>"
       and skills = "[]" and ?o1.0 = "''zip''" and ?b1.0 = None
       and ?o2.0 = "''someone''" and ?b2.0 = "Some ''dev''"]
  by simp

text \<open>
  Claim C10. In the skill count a branch recorded as the empty string behaves as an
  absent one: giving the repository the branch \<open>""\<close> instead of no branch, or giving
  any selection \<open>P\<close> of the skills without a branch the branch \<open>""\<close>, does not change
  \<open>getSkillCount\<close>.
\<close>

theorem getSkillCount_empty_branch:
  "getSkillCount skills (repo\<lparr>branch := Some ''''\<rparr>) = getSkillCount skills (repo\<lparr>branch := None\<rparr>)
   \<and> getSkillCount
        (map (\<lambda>skill. if repoBranch skill = None \<and> P skill
                       then skill\<lparr>repoBranch := Some ''''\<rparr> else skill) skills) repo
       = getSkillCount skills repo"
proof -
  have "filter (\<lambda>skill. Q (repoOwner skill) (repoName skill) (orElseOpt (repoBranch skill) ''main''))
          (map (\<lambda>skill. if repoBranch skill = None \<and> P skill
                       then skill\<lparr>repoBranch := Some ''''\<rparr> else skill) skills)
        = map (\<lambda>skill. if repoBranch skill = None \<and> P skill
                       then skill\<lparr>repoBranch := Some ''''\<rparr> else skill)
           (filter (\<lambda>skill. Q (repoOwner skill) (repoName skill) (orElseOpt (repoBranch skill) ''main'')) skills)" for Q
    by (induction skills) (auto simp: orElseOpt_def orElse_def)
  note this[of "\<lambda>a b c. a = owner repo \<and> b = name repo \<and> c = orElseOpt (branch repo) ''main''"]
     this[of "\<lambda>a b c. b = name repo"]
  then show ?thesis
    by (simp add: getSkillCount_def orElseOpt_def orElse_def)
qed

section \<open>The submit handlers\<close>

text \<open>
  Claim C3, as amended. \<open>handleAddZip\<close> checks its rules in order and stops at the
  first one that fails. The error is \<open>nameRequired\<close> exactly when the trimmed name is
  empty; otherwise it is \<open>zipUrlRequired\<close> exactly when the trimmed link is empty;
  otherwise it is \<open>invalidZipUrl\<close> exactly when \<open>new URL\<close> rejects the trimmed link.
  When a rule fails nothing is handed to \<open>onAdd\<close>; when all three hold, the reference
  handed to \<open>onAdd\<close> carries the trimmed name and the trimmed link. What \<open>new URL\<close>
  asks for is a scheme, not an authority: a link without a scheme is rejected, and a
  link with a scheme other than \<open>ftp\<close>, \<open>file\<close>, \<open>http\<close>, \<open>https\<close>, \<open>ws\<close> and
  \<open>wss\<close> that is not followed by \<open>//\<close> is accepted, whatever follows.
\<close>

theorem handleAddZip_rules:
  "(trim (st_zipName s) = [] \<longleftrightarrow>
      st_error (fst (handleAddZip (newURL authorityStates) onAdd s))
        = Translated ''skills.repo.nameRequired'')
   \<and> (trim (st_zipName s) \<noteq> [] \<longrightarrow>
        (trim (st_zipUrl s) = [] \<longleftrightarrow>
           st_error (fst (handleAddZip (newURL authorityStates) onAdd s))
             = Translated ''skills.repo.zipUrlRequired''))
   \<and> (trim (st_zipName s) \<noteq> [] \<and> trim (st_zipUrl s) \<noteq> [] \<longrightarrow>
        (\<not> newURL authorityStates (trim (st_zipUrl s)) \<longleftrightarrow>
           st_error (fst (handleAddZip (newURL authorityStates) onAdd s))
             = Translated ''skills.repo.invalidZipUrl''))
   \<and> (trim (st_zipName s) = [] \<or> trim (st_zipUrl s) = []
        \<or> \<not> newURL authorityStates (trim (st_zipUrl s)) \<longrightarrow>
        snd (handleAddZip (newURL authorityStates) onAdd s) = [])
   \<and> (trim (st_zipName s) \<noteq> [] \<and> trim (st_zipUrl s) \<noteq> []
        \<and> newURL authorityStates (trim (st_zipUrl s)) \<longrightarrow>
        snd (handleAddZip (newURL authorityStates) onAdd s) =
          [\<lparr>owner = ''zip'', name = trim (st_zipName s), branch = Some '''', enabled = True,
            repoType = Zip, zipUrl = Some (trim (st_zipUrl s))\<rparr>])
   \<and> (trim (st_zipName s) \<noteq> [] \<and> trim (st_zipUrl s) \<noteq> []
        \<and> urlScheme (urlInput (trim (st_zipUrl s))) = None \<longrightarrow>
        st_error (fst (handleAddZip (newURL authorityStates) onAdd s))
          = Translated ''skills.repo.invalidZipUrl'')
   \<and> (trim (st_zipName s) \<noteq> [] \<and> trim (st_zipUrl s) \<noteq> []
        \<and> urlScheme (urlInput (trim (st_zipUrl s))) = Some (scheme, remaining)
        \<and> \<not> isSpecialScheme scheme \<and> \<not> startsWith remaining ''//'' \<longrightarrow>
        snd (handleAddZip (newURL authorityStates) onAdd s) =
          [\<lparr>owner = ''zip'', name = trim (st_zipName s), branch = Some '''', enabled = True,
            repoType = Zip, zipUrl = Some (trim (st_zipUrl s))\<rparr>])"
proof -
  have n: "urlScheme (urlInput (trim (st_zipUrl s))) = None
           \<Longrightarrow> \<not> newURL authorityStates (trim (st_zipUrl s))"
    by (simp add: newURL_def)
  have y: "urlScheme (urlInput (trim (st_zipUrl s))) = Some (scheme, remaining)
           \<Longrightarrow> \<not> isSpecialScheme scheme \<Longrightarrow> \<not> startsWith remaining ''//''
           \<Longrightarrow> newURL authorityStates (trim (st_zipUrl s))"
    by (simp add: newURL_def)
  show ?thesis
    using n y
    by (auto simp: handler_defs split: settlement.splits rejection.splits)
qed

theorem handleAddZip_rules_witness:
  "st_error (fst (handleAddZip (newURL (\<lambda>scheme remaining. True)) (\<lambda>repo. Fulfilled)
      \<lparr>st_repoUrl = '''', st_branch = '''', st_zipName = '''', st_zipUrl = ''https://x.com/a.zip'',
       st_error = Plain '''', st_repoType = Zip\<rparr>)) = Translated ''skills.repo.nameRequired''
   \<and> st_error (fst (handleAddZip (newURL (\<lambda>scheme remaining. True)) (\<lambda>repo. Fulfilled)
      \<lparr>st_repoUrl = '''', st_branch = '''', st_zipName = ''foo'', st_zipUrl = '''',
       st_error = Plain '''', st_repoType = Zip\<rparr>)) = Translated ''skills.repo.zipUrlRequired''
   \<and> urlScheme (urlInput ''not a url'') = None
   \<and> st_error (fst (handleAddZip (newURL (\<lambda>scheme remaining. True)) (\<lambda>repo. Fulfilled)
      \<lparr>st_repoUrl = '''', st_branch = '''', st_zipName = ''foo'', st_zipUrl = ''not a url'',
       st_error = Plain '''', st_repoType = Zip\<rparr>)) = Translated ''skills.repo.invalidZipUrl''
   \<and> snd (handleAddZip (newURL (\<lambda>scheme remaining. True)) (\<lambda>repo. Fulfilled)
      \<lparr>st_repoUrl = '''', st_branch = '''', st_zipName = ''foo'', st_zipUrl = ''not a url'',
       st_error = Plain '''', st_repoType = Zip\<rparr>) = []
   \<and> urlScheme (urlInput ''data:application/zip;base64,UEsFBg=='')
        = Some (''data'', ''application/zip;base64,UEsFBg=='')
   \<and> snd (handleAddZip (newURL (\<lambda>scheme remaining. True)) (\<lambda>repo. Fulfilled)
      \<lparr>st_repoUrl = '''', st_branch = '''', st_zipName = '' foo '',
       st_zipUrl = '' data:application/zip;base64,UEsFBg== '',
       st_error = Plain '''', st_repoType = Zip\<rparr>)
      = [\<lparr>owner = ''zip'', name = ''foo'', branch = Some '''', enabled = True,
          repoType = Zip, zipUrl = Some ''data:application/zip;base64,UEsFBg==''\<rparr>]"
proof -
  have t: "trim '''' = []" "trim ''foo'' = ''foo''" "trim '' foo '' = ''foo''"
    "trim ''https://x.com/a.zip'' = ''https://x.com/a.zip''"
    "trim ''not a url'' = ''not a url''"
    "trim '' data:application/zip;base64,UEsFBg== '' = ''data:application/zip;base64,UEsFBg==''"
    by (simp_all add: trim_def isWhiteSpace_def)
  have u: "urlScheme (urlInput ''not a url'') = None"
    "urlScheme (urlInput ''data:application/zip;base64,UEsFBg=='')
        = Some (''data'', ''application/zip;base64,UEsFBg=='')"
    "\<not> isSpecialScheme ''data''" "\<not> startsWith ''application/zip;base64,UEsFBg=='' ''//''"
    by (simp_all add: urlScheme_def urlInput_def isC0ControlOrSpace_def isAsciiTabOrNewline_def
        isAsciiAlpha_def isSchemeCodePoint_def asciiLower_def isSpecialScheme_def startsWith_def)
  show ?thesis
    using u
      handleAddZip_rules [where authorityStates = "\<lambda>scheme remaining. True"
        and onAdd = "\<lambda>repo. Fulfilled"
        and s = "\<lparr>st_repoUrl = '''', st_branch = '''', st_zipName = '''', st_zipUrl = ''https://x.com/a.zip'',
         st_error = Plain '''', st_repoType = Zip\<rparr>"]
      handleAddZip_rules [where authorityStates = "\<lambda>scheme remaining. True"
        and onAdd = "\<lambda>repo. Fulfilled"
        and s = "\<lparr>st_repoUrl = '''', st_branch = '''', st_zipName = ''foo'', st_zipUrl = '''',
         st_error = Plain '''', st_repoType = Zip\<rparr>"]
      handleAddZip_rules [where authorityStates = "\<lambda>scheme remaining. True"
        and onAdd = "\<lambda>repo. Fulfilled"
        and s = "\<lparr>st_repoUrl = '''', st_branch = '''', st_zipName = ''foo'', st_zipUrl = ''not a url'',
         st_error = Plain '''', st_repoType = Zip\<rparr>"]
      handleAddZip_rules [where authorityStates = "\<lambda>scheme remaining. True"
        and onAdd = "\<lambda>repo. Fulfilled"
        and scheme = "''data''" and remaining = "''application/zip;base64,UEsFBg==''"
        and s = "\<lparr>st_repoUrl = '''', st_branch = '''', st_zipName = '' foo '',
         st_zipUrl = '' data:application/zip;base64,UEsFBg== '',
         st_error = Plain '''', st_repoType = Zip\<rparr>"]
    by (simp add: t)
qed

text \<open>
  Claim C3 as stated asks for a scheme and an authority. The link \<open>mailto:x@y.z\<close>
  has the scheme \<open>mailto\<close> and no \<open>//\<close>, hence no authority; \<open>new URL\<close> accepts it
  without looking at a host, so no \<open>invalidZipUrl\<close> is reported and the link is
  handed to \<open>onAdd\<close>.
\<close>

theorem handleAddZip_no_authority_counterexample:
  "urlScheme (urlInput ''mailto:x@y.z'') = Some (''mailto'', ''x@y.z'')
   \<and> \<not> startsWith ''x@y.z'' ''//''
   \<and> st_error (fst (handleAddZip (newURL (\<lambda>scheme remaining. False)) (\<lambda>repo. Fulfilled)
        \<lparr>st_repoUrl = '''', st_branch = '''', st_zipName = ''foo'', st_zipUrl = ''mailto:x@y.z'',
         st_error = Plain '''', st_repoType = Zip\<rparr>))
       \<noteq> Translated ''skills.repo.invalidZipUrl''
   \<and> snd (handleAddZip (newURL (\<lambda>scheme remaining. False)) (\<lambda>repo. Fulfilled)
        \<lparr>st_repoUrl = '''', st_branch = '''', st_zipName = ''foo'', st_zipUrl = ''mailto:x@y.z'',
         st_error = Plain '''', st_repoType = Zip\<rparr>)
       = [\<lparr>owner = ''zip'', name = ''foo'', branch = Some '''', enabled = True,
           repoType = Zip, zipUrl = Some ''mailto:x@y.z''\<rparr>]"
  by (simp add: handler_defs trim_def isWhiteSpace_def url_defs)

text \<open>
  Claim C5. When validation fails, the handler sets the error of the rule that failed,
  changes nothing else, and makes no call to \<open>onAdd\<close>: the result does not depend on
  \<open>onAdd\<close> at all. This covers an address that \<open>parseRepoUrl\<close> rejects and each of
  the three rules of \<open>handleAddZip\<close>.
\<close>

theorem validation_failure_makes_no_call:
  "(parseRepoUrl (st_repoUrl s) = None \<longrightarrow>
      handleAddGithub onAdd s = (s\<lparr>st_error := Translated ''skills.repo.invalidUrl''\<rparr>, []))
   \<and> (trim (st_zipName s) = [] \<longrightarrow>
        handleAddZip URL_parses onAdd s =
          (s\<lparr>st_error := Translated ''skills.repo.nameRequired''\<rparr>, []))
   \<and> (trim (st_zipName s) \<noteq> [] \<and> trim (st_zipUrl s) = [] \<longrightarrow>
        handleAddZip URL_parses onAdd s =
          (s\<lparr>st_error := Translated ''skills.repo.zipUrlRequired''\<rparr>, []))
   \<and> (trim (st_zipName s) \<noteq> [] \<and> trim (st_zipUrl s) \<noteq> [] \<and> \<not> URL_parses (trim (st_zipUrl s)) \<longrightarrow>
        handleAddZip URL_parses onAdd s =
          (s\<lparr>st_error := Translated ''skills.repo.invalidZipUrl''\<rparr>, []))"
  by (simp add: handler_defs)

theorem validation_failure_makes_no_call_witness:
  "parseRepoUrl ''https://github.com/only-owner'' = None
   \<and> handleAddGithub (\<lambda>repo. Fulfilled)
       \<lparr>st_repoUrl = ''https://github.com/only-owner'', st_branch = ''dev'', st_zipName = '' '',
        st_zipUrl = ''u'', st_error = Plain ''old'', st_repoType = Github\<rparr>
     = (\<lparr>st_repoUrl = ''https://github.com/only-owner'', st_branch = ''dev'', st_zipName = '' '',
         st_zipUrl = ''u'', st_error = Translated ''skills.repo.invalidUrl'',
         st_repoType = Github\<rparr>, [])
   \<and> handleAddZip (\<lambda>u. True) (\<lambda>repo. Fulfilled)
       \<lparr>st_repoUrl = ''https://github.com/only-owner'', st_branch = ''dev'', st_zipName = '' '',
        st_zipUrl = ''u'', st_error = Plain ''old'', st_repoType = Github\<rparr>
     = (\<lparr>st_repoUrl = ''https://github.com/only-owner'', st_branch = ''dev'', st_zipName = '' '',
         st_zipUrl = ''u'', st_error = Translated ''skills.repo.nameRequired'',
         st_repoType = Github\<rparr>, [])
   \<and> handleAddZip (\<lambda>u. True) (\<lambda>repo. Fulfilled)
       \<lparr>st_repoUrl = '''', st_branch = '''', st_zipName = ''foo'',
        st_zipUrl = ''  '', st_error = Plain '''', st_repoType = Zip\<rparr>
     = (\<lparr>st_repoUrl = '''', st_branch = '''', st_zipName = ''foo'',
         st_zipUrl = ''  '', st_error = Translated ''skills.repo.zipUrlRequired'',
         st_repoType = Zip\<rparr>, [])
   \<and> handleAddZip (\<lambda>u. False) (\<lambda>repo. Fulfilled)
       \<lparr>st_repoUrl = '''', st_branch = '''', st_zipName = ''foo'',
        st_zipUrl = ''not a url'', st_error = Plain '''', st_repoType = Zip\<rparr>
     = (\<lparr>st_repoUrl = '''', st_branch = '''', st_zipName = ''foo'',
         st_zipUrl = ''not a url'', st_error = Translated ''skills.repo.invalidZipUrl'',
         st_repoType = Zip\<rparr>, [])"
proof -
  have p: "parseRepoUrl ''https://github.com/only-owner'' = None"
    by (simp add: parseRepoUrl_def cleaned_def trim_def isWhiteSpace_def
        replaceGithubPrefix_def startsWith_def replaceGitSuffix_def endsWith_def)
  show ?thesis
    using p
      validation_failure_makes_no_call [where URL_parses = "\<lambda>u. True" and onAdd = "\<lambda>repo. Fulfilled"
        and s = "\<lparr>st_repoUrl = ''https://github.com/only-owner'', st_branch = ''dev'', st_zipName = '' '',
          st_zipUrl = ''u'', st_error = Plain ''old'', st_repoType = Github\<rparr>"]
      validation_failure_makes_no_call [where URL_parses = "\<lambda>u. True" and onAdd = "\<lambda>repo. Fulfilled"
        and s = "\<lparr>st_repoUrl = '''', st_branch = '''', st_zipName = ''foo'',
          st_zipUrl = ''  '', st_error = Plain '''', st_repoType = Zip\<rparr>"]
      validation_failure_makes_no_call [where URL_parses = "\<lambda>u. False" and onAdd = "\<lambda>repo. Fulfilled"
        and s = "\<lparr>st_repoUrl = '''', st_branch = '''', st_zipName = ''foo'',
          st_zipUrl = ''not a url'', st_error = Plain '''', st_repoType = Zip\<rparr>"]
    by (simp add: trim_def isWhiteSpace_def)
qed

text \<open>
  Claim C4, as amended. When the address field parses to \<open>{ow, nm}\<close>,
  \<open>handleAddGithub\<close> calls \<open>onAdd\<close> exactly once, with owner \<open>ow\<close>, name \<open>nm\<close>,
  \<open>enabled = true\<close> and the branch \<open>"main"\<close> if the branch field is the empty
  string, the branch field as it is otherwise. If the call fulfils, the address and
  branch fields are cleared, the error text is reset to the empty string, and nothing
  else changes. If the call rejects, the address and branch fields keep their values,
  the error text becomes the \<open>message\<close> of an \<open>Error\<close> instance, which may be empty,
  or the translation of \<open>skills.repo.addFailed\<close> for any other value, and nothing else
  changes.
\<close>

theorem handleAddGithub_valid:
  "parseRepoUrl (st_repoUrl s) = Some (ow, nm) \<Longrightarrow>
     snd (handleAddGithub onAdd s) =
       [\<lparr>owner = ow, name = nm,
         branch = Some (if st_branch s = [] then ''main'' else st_branch s),
         enabled = True, repoType = Github, zipUrl = None\<rparr>]
     \<and> (onAdd \<lparr>owner = ow, name = nm,
                branch = Some (if st_branch s = [] then ''main'' else st_branch s),
                enabled = True, repoType = Github, zipUrl = None\<rparr> = Fulfilled \<longrightarrow>
          fst (handleAddGithub onAdd s) =
            s\<lparr>st_error := Plain '''', st_repoUrl := '''', st_branch := ''''\<rparr>)
     \<and> (onAdd \<lparr>owner = ow, name = nm,
                branch = Some (if st_branch s = [] then ''main'' else st_branch s),
                enabled = True, repoType = Github, zipUrl = None\<rparr> = Rejected e \<longrightarrow>
          st_repoUrl (fst (handleAddGithub onAdd s)) = st_repoUrl s
          \<and> st_branch (fst (handleAddGithub onAdd s)) = st_branch s
          \<and> fst (handleAddGithub onAdd s) =
              s\<lparr>st_error := (case e of ErrorInstance msg \<Rightarrow> Plain msg
                                      | NonError \<Rightarrow> Translated ''skills.repo.addFailed'')\<rparr>)"
  by (simp add: handler_defs orElse_def)

theorem handleAddGithub_valid_witness:
  "parseRepoUrl ''https://github.com/a/b'' = Some (''a'', ''b'')
   \<and> handleAddGithub (\<lambda>repo. Fulfilled)
       \<lparr>st_repoUrl = ''https://github.com/a/b'', st_branch = '''', st_zipName = ''n'',
        st_zipUrl = ''u'', st_error = Plain ''old'', st_repoType = Github\<rparr>
     = (\<lparr>st_repoUrl = '''', st_branch = '''', st_zipName = ''n'',
         st_zipUrl = ''u'', st_error = Plain '''', st_repoType = Github\<rparr>,
        [\<lparr>owner = ''a'', name = ''b'', branch = Some ''main'', enabled = True,
          repoType = Github, zipUrl = None\<rparr>])
   \<and> handleAddGithub (\<lambda>repo. Rejected (ErrorInstance ''already added''))
       \<lparr>st_repoUrl = ''https://github.com/a/b'', st_branch = ''dev'', st_zipName = ''n'',
        st_zipUrl = ''u'', st_error = Plain ''old'', st_repoType = Github\<rparr>
     = (\<lparr>st_repoUrl = ''https://github.com/a/b'', st_branch = ''dev'', st_zipName = ''n'',
         st_zipUrl = ''u'', st_error = Plain ''already added'', st_repoType = Github\<rparr>,
        [\<lparr>owner = ''a'', name = ''b'', branch = Some ''dev'', enabled = True,
          repoType = Github, zipUrl = None\<rparr>])"
proof -
  have p: "parseRepoUrl ''https://github.com/a/b'' = Some (''a'', ''b'')"
    by (simp add: parseRepoUrl_def cleaned_def trim_def isWhiteSpace_def
        replaceGithubPrefix_def startsWith_def replaceGitSuffix_def endsWith_def)
  show ?thesis
    using p
      handleAddGithub_valid [where onAdd = "\<lambda>repo. Fulfilled" and ow = "''a''" and nm = "''b''"
        and s = "\<lparr>st_repoUrl = ''https://github.com/a/b'', st_branch = '''', st_zipName = ''n'',
          st_zipUrl = ''u'', st_error = Plain ''old'', st_repoType = Github\<rparr>"]
      handleAddGithub_valid [where onAdd = "\<lambda>repo. Rejected (ErrorInstance ''already added'')"
        and ow = "''a''" and nm = "''b''" and e = "ErrorInstance ''already added''"
        and s = "\<lparr>st_repoUrl = ''https://github.com/a/b'', st_branch = ''dev'', st_zipName = ''n'',
          st_zipUrl = ''u'', st_error = Plain ''old'', st_repoType = Github\<rparr>"]
    by (simp add: prod_eq_iff)
qed

text \<open>
  Claim C4 as stated has only the address and branch fields change on success, and the
  branch \<open>"main"\<close> for a blank branch field. A form showing the error \<open>old\<close>, with
  the address \<open>a/b\<close> and a branch field holding one space, submitted with success: the
  result is not the form with just the two fields cleared, since the error text is now
  empty, and the reference was added with the branch \<open>" "\<close>, which trims to nothing.
\<close>

theorem handleAddGithub_frame_counterexample:
  "fst (handleAddGithub (\<lambda>repo. Fulfilled)
      \<lparr>st_repoUrl = ''a/b'', st_branch = '' '', st_zipName = '''', st_zipUrl = '''',
       st_error = Plain ''old'', st_repoType = Github\<rparr>)
     \<noteq> \<lparr>st_repoUrl = ''a/b'', st_branch = '' '', st_zipName = '''', st_zipUrl = '''',
         st_error = Plain ''old'', st_repoType = Github\<rparr>
        \<lparr>st_repoUrl := '''', st_branch := ''''\<rparr>
   \<and> st_error (fst (handleAddGithub (\<lambda>repo. Fulfilled)
      \<lparr>st_repoUrl = ''a/b'', st_branch = '' '', st_zipName = '''', st_zipUrl = '''',
       st_error = Plain ''old'', st_repoType = Github\<rparr>)) = Plain ''''
   \<and> snd (handleAddGithub (\<lambda>repo. Fulfilled)
      \<lparr>st_repoUrl = ''a/b'', st_branch = '' '', st_zipName = '''', st_zipUrl = '''',
       st_error = Plain ''old'', st_repoType = Github\<rparr>)
     = [\<lparr>owner = ''a'', name = ''b'', branch = Some '' '', enabled = True,
         repoType = Github, zipUrl = None\<rparr>]
   \<and> trim '' '' = []"
  by (simp add: handler_defs orElse_def parseRepoUrl_def cleaned_def trim_def isWhiteSpace_def
      replaceGithubPrefix_def startsWith_def replaceGitSuffix_def endsWith_def)

text \<open>
  Claim C6, as amended. Whenever a handler has called \<open>onAdd\<close> on a reference and the
  call rejects with a value \<open>e\<close>, the form is left as it was except for the error text,
  which is the \<open>message\<close> of \<open>e\<close> when \<open>e\<close> is an \<open>Error\<close> instance, whatever that
  message is, and the translation of \<open>skills.repo.addFailed\<close> for every other value.
\<close>

theorem add_failure_surfaced:
  "(snd (handleAddGithub onAdd s) = [repo] \<and> onAdd repo = Rejected e \<longrightarrow>
      fst (handleAddGithub onAdd s) =
        s\<lparr>st_error := (case e of ErrorInstance msg \<Rightarrow> Plain msg
                                | NonError \<Rightarrow> Translated ''skills.repo.addFailed'')\<rparr>)
   \<and> (snd (handleAddZip URL_parses onAdd s) = [repo] \<and> onAdd repo = Rejected e \<longrightarrow>
        fst (handleAddZip URL_parses onAdd s) =
          s\<lparr>st_error := (case e of ErrorInstance msg \<Rightarrow> Plain msg
                                  | NonError \<Rightarrow> Translated ''skills.repo.addFailed'')\<rparr>)"
  by (auto simp: handler_defs split: option.splits if_splits)

theorem add_failure_surfaced_witness:
  "snd (handleAddGithub (\<lambda>repo. Rejected NonError)
       \<lparr>st_repoUrl = ''a/b'', st_branch = '''', st_zipName = '''', st_zipUrl = '''',
        st_error = Plain '''', st_repoType = Github\<rparr>)
     = [\<lparr>owner = ''a'', name = ''b'', branch = Some ''main'', enabled = True,
         repoType = Github, zipUrl = None\<rparr>]
   \<and> fst (handleAddGithub (\<lambda>repo. Rejected NonError)
       \<lparr>st_repoUrl = ''a/b'', st_branch = '''', st_zipName = '''', st_zipUrl = '''',
        st_error = Plain '''', st_repoType = Github\<rparr>)
     = \<lparr>st_repoUrl = ''a/b'', st_branch = '''', st_zipName = '''', st_zipUrl = '''',
        st_error = Translated ''skills.repo.addFailed'', st_repoType = Github\<rparr>
   \<and> snd (handleAddZip (\<lambda>u. True) (\<lambda>repo. Rejected (ErrorInstance ''download failed''))
       \<lparr>st_repoUrl = '''', st_branch = '''', st_zipName = ''pack1'', st_zipUrl = ''https://x.com/a.zip'',
        st_error = Plain '''', st_repoType = Zip\<rparr>)
     = [\<lparr>owner = ''zip'', name = ''pack1'', branch = Some '''', enabled = True,
         repoType = Zip, zipUrl = Some ''https://x.com/a.zip''\<rparr>]
   \<and> fst (handleAddZip (\<lambda>u. True) (\<lambda>repo. Rejected (ErrorInstance ''download failed''))
       \<lparr>st_repoUrl = '''', st_branch = '''', st_zipName = ''pack1'', st_zipUrl = ''https://x.com/a.zip'',
        st_error = Plain '''', st_repoType = Zip\<rparr>)
     = \<lparr>st_repoUrl = '''', st_branch = '''', st_zipName = ''pack1'', st_zipUrl = ''https://x.com/a.zip'',
        st_error = Plain ''download failed'', st_repoType = Zip\<rparr>"
proof -
  have g: "snd (handleAddGithub (\<lambda>repo. Rejected NonError)
       \<lparr>st_repoUrl = ''a/b'', st_branch = '''', st_zipName = '''', st_zipUrl = '''',
        st_error = Plain '''', st_repoType = Github\<rparr>)
     = [\<lparr>owner = ''a'', name = ''b'', branch = Some ''main'', enabled = True,
         repoType = Github, zipUrl = None\<rparr>]"
    by (simp add: handleAddGithub_def Let_def orElse_def parseRepoUrl_def cleaned_def trim_def
        isWhiteSpace_def replaceGithubPrefix_def startsWith_def replaceGitSuffix_def endsWith_def)
  have z: "snd (handleAddZip (\<lambda>u. True) (\<lambda>repo. Rejected (ErrorInstance ''download failed''))
       \<lparr>st_repoUrl = '''', st_branch = '''', st_zipName = ''pack1'', st_zipUrl = ''https://x.com/a.zip'',
        st_error = Plain '''', st_repoType = Zip\<rparr>)
     = [\<lparr>owner = ''zip'', name = ''pack1'', branch = Some '''', enabled = True,
         repoType = Zip, zipUrl = Some ''https://x.com/a.zip''\<rparr>]"
    by (simp add: handleAddZip_def Let_def trim_def isWhiteSpace_def)
  show ?thesis
    using g z
      add_failure_surfaced [where onAdd = "\<lambda>repo. Rejected NonError" and e = NonError
        and URL_parses = "\<lambda>u. True"
        and repo = "\<lparr>owner = ''a'', name = ''b'', branch = Some ''main'', enabled = True,
          repoType = Github, zipUrl = None\<rparr>"
        and s = "\<lparr>st_repoUrl = ''a/b'', st_branch = '''', st_zipName = '''', st_zipUrl = '''',
          st_error = Plain '''', st_repoType = Github\<rparr>"]
      add_failure_surfaced [where onAdd = "\<lambda>repo. Rejected (ErrorInstance ''download failed'')"
        and e = "ErrorInstance ''download failed''" and URL_parses = "\<lambda>u. True"
        and repo = "\<lparr>owner = ''zip'', name = ''pack1'', branch = Some '''', enabled = True,
          repoType = Zip, zipUrl = Some ''https://x.com/a.zip''\<rparr>"
        and s = "\<lparr>st_repoUrl = '''', st_branch = '''', st_zipName = ''pack1'', st_zipUrl = ''https://x.com/a.zip'',
          st_error = Plain '''', st_repoType = Zip\<rparr>"]
    by simp
qed

text \<open>
  Claim C6 as stated promises the generic text whenever the failure carries no message.
  A call that rejects with \<open>new Error("")\<close> carries none, yet the error text becomes
  the empty string, not the translation of \<open>skills.repo.addFailed\<close>.
\<close>

theorem add_failure_empty_message_counterexample:
  "st_error (fst (handleAddGithub (\<lambda>repo. Rejected (ErrorInstance ''''))
      \<lparr>st_repoUrl = ''a/b'', st_branch = '''', st_zipName = '''', st_zipUrl = '''',
       st_error = Plain '''', st_repoType = Github\<rparr>)) = Plain ''''
   \<and> st_error (fst (handleAddGithub (\<lambda>repo. Rejected (ErrorInstance ''''))
      \<lparr>st_repoUrl = ''a/b'', st_branch = '''', st_zipName = '''', st_zipUrl = '''',
       st_error = Plain '''', st_repoType = Github\<rparr>)) \<noteq> Translated ''skills.repo.addFailed''"
  by (simp add: handler_defs parseRepoUrl_def cleaned_def trim_def isWhiteSpace_def
      replaceGithubPrefix_def startsWith_def replaceGitSuffix_def endsWith_def)

section \<open>The two components\<close>

text \<open>
  Claim C8. The parser, the skill count, the display name and the subtitle of
  \<open>RepoManager\<close> return, on every input, what the functions of the same name in
  \<open>RepoManagerPanel\<close> return.
\<close>

theorem RepoManager_same_helpers:
  "RepoManager_parseRepoUrl url = parseRepoUrl url
   \<and> RepoManager_getSkillCount skills repo = getSkillCount skills repo
   \<and> RepoManager_getRepoDisplayName repo = getRepoDisplayName repo
   \<and> RepoManager_getRepoSubtitle repo = getRepoSubtitle repo"
  by (simp add: RepoManager_parseRepoUrl_def parseRepoUrl_def cleaned_def
      RepoManager_getSkillCount_def getSkillCount_def
      RepoManager_getRepoDisplayName_def getRepoDisplayName_def
      RepoManager_getRepoSubtitle_def getRepoSubtitle_def)

end
